theory Spec2Isabelle
  imports Complex_Main "HOL-Library.Word"
begin

unbundle bit_operations_syntax

section \<open>The FRC 2015 protocol of LibDS: machine types\<close>

text \<open>
  The protocol file works on \<open>uint8_t\<close> packet bytes, on C \<open>int\<close> counters and
  configuration values, and on a \<open>double\<close> voltage. Bytes are 8-bit words and C
  \<open>int\<close> is a 32-bit word read as two's complement where the source compares it
  (\<open><s\<close>); \<open>++\<close> on it wraps around as the machine does. The voltage is a real
  number: every value the theorems evaluate is a dyadic fraction, which a \<open>double\<close> holds
  exactly.
\<close>

type_synonym u8 = "8 word"
type_synonym c_int = "32 word"

text \<open>
  The conversion of a \<open>double\<close> to an integer type truncates towards zero. For a
  value outside the target type C leaves the result open; the model reduces modulo
  \<open>2 ^ 8\<close>.
\<close>

definition c_trunc :: "real \<Rightarrow> int" where
  "c_trunc x = (if 0 \<le> x then \<lfloor>x\<rfloor> else \<lceil>x\<rceil>)"

definition double_to_u8 :: "real \<Rightarrow> u8" where
  "double_to_u8 x = word_of_int (c_trunc x)"

section \<open>Protocol bytes\<close>

definition cTest :: u8 where "cTest = 0x01"
definition cEnabled :: u8 where "cEnabled = 0x04"
definition cAutonomous :: u8 where "cAutonomous = 0x02"
definition cTeleoperated :: u8 where "cTeleoperated = 0x00"
definition cFMS_Attached :: u8 where "cFMS_Attached = 0x08"
definition cEmergencyStop :: u8 where "cEmergencyStop = 0x80"
definition cRequestReboot :: u8 where "cRequestReboot = 0x08"
definition cRequestNormal :: u8 where "cRequestNormal = 0x80"
definition cRequestUnconnected :: u8 where "cRequestUnconnected = 0x00"
definition cRequestRestartCode :: u8 where "cRequestRestartCode = 0x04"
definition cFMS_RadioPing :: u8 where "cFMS_RadioPing = 0x10"
definition cFMS_RobotPing :: u8 where "cFMS_RobotPing = 0x08"
definition cFMS_RobotComms :: u8 where "cFMS_RobotComms = 0x20"
definition cFMS_DS_Version :: u8 where "cFMS_DS_Version = 0x00"
definition cTagDate :: u8 where "cTagDate = 0x0f"
definition cTagGeneral :: u8 where "cTagGeneral = 0x01"
definition cTagJoystick :: u8 where "cTagJoystick = 0x0c"
definition cTagTimezone :: u8 where "cTagTimezone = 0x10"
definition cRed1 :: u8 where "cRed1 = 0x00"
definition cRed2 :: u8 where "cRed2 = 0x01"
definition cRed3 :: u8 where "cRed3 = 0x02"
definition cBlue1 :: u8 where "cBlue1 = 0x03"
definition cBlue2 :: u8 where "cBlue2 = 0x04"
definition cBlue3 :: u8 where "cBlue3 = 0x05"
definition cRTagCANInfo :: u8 where "cRTagCANInfo = 0x0e"
definition cRTagCPUInfo :: u8 where "cRTagCPUInfo = 0x05"
definition cRTagRAMInfo :: u8 where "cRTagRAMInfo = 0x06"
definition cRTagDiskInfo :: u8 where "cRTagDiskInfo = 0x04"
definition cRequestTime :: u8 where "cRequestTime = 0x01"
definition cRobotHasCode :: u8 where "cRobotHasCode = 0x20"

lemmas protocol_bytes =
  cTest_def cEnabled_def cAutonomous_def cTeleoperated_def cFMS_Attached_def
  cEmergencyStop_def cRequestReboot_def cRequestNormal_def cRequestUnconnected_def
  cRequestRestartCode_def cFMS_RadioPing_def cFMS_RobotPing_def cFMS_RobotComms_def
  cFMS_DS_Version_def cTagDate_def cTagGeneral_def cTagJoystick_def cTagTimezone_def
  cRed1_def cRed2_def cRed3_def cBlue1_def cBlue2_def cBlue3_def cRTagCANInfo_def
  cRTagCPUInfo_def cRTagRAMInfo_def cRTagDiskInfo_def cRequestTime_def cRobotHasCode_def

section \<open>The state the protocol reads and writes\<close>

text \<open>
  Modelled from the spec: the enumerations of \<open>DS_Config.h\<close>, which the protocol file
  includes and which is not among the sources. The spec gives the variants: control mode
  Test, Autonomous or Teleoperated; alliance Red or Blue; position 1, 2 or 3.
\<close>

datatype DS_ControlMode = DS_CONTROL_TEST | DS_CONTROL_AUTONOMOUS | DS_CONTROL_TELEOPERATED
datatype DS_Alliance = DS_ALLIANCE_RED | DS_ALLIANCE_BLUE
datatype DS_Position = DS_POSITION_1 | DS_POSITION_2 | DS_POSITION_3

text \<open>
  One record holds the configuration store (the \<open>cfg_\<close> fields, which the source
  reaches through \<open>CFG_Get...\<close> and \<open>CFG_Set...\<close>) and the file's own static
  variables: \<open>send_time_data\<close>, \<open>sent_fms_packets\<close>, \<open>sent_robot_packets\<close>,
  \<open>reboot\<close> and \<open>restart_code\<close>. The three flags are C \<open>int\<close>s that only ever
  hold 0 or 1 and are only tested for being non-zero, so they are booleans here; the two
  counters are C \<open>int\<close>s.
\<close>

record ds_state =
  cfg_team_number :: c_int
  cfg_alliance :: DS_Alliance
  cfg_position :: DS_Position
  cfg_control_mode :: DS_ControlMode
  cfg_robot_enabled :: bool
  cfg_emergency_stopped :: bool
  cfg_robot_code :: bool
  cfg_fms_communications :: bool
  cfg_radio_communications :: bool
  cfg_robot_communications :: bool
  cfg_robot_voltage :: real
  cfg_cpu_usage :: u8
  cfg_ram_usage :: u8
  cfg_disk_usage :: u8
  cfg_can_utilization :: u8
  send_time_data :: bool
  sent_fms_packets :: c_int
  sent_robot_packets :: c_int
  reboot :: bool
  restart_code :: bool

text \<open>
  Modelled from the spec: the configuration facade of \<open>DS_Config.h\<close>, not among the
  sources. The spec describes it as a store of scalar fields, each with a getter and a
  setter; a setter that takes a C truth value stores whether it is non-zero.
\<close>

definition CFG_GetTeamNumber :: "ds_state \<Rightarrow> c_int" where
  "CFG_GetTeamNumber s = cfg_team_number s"
definition CFG_GetAlliance :: "ds_state \<Rightarrow> DS_Alliance" where
  "CFG_GetAlliance s = cfg_alliance s"
definition CFG_GetPosition :: "ds_state \<Rightarrow> DS_Position" where
  "CFG_GetPosition s = cfg_position s"
definition CFG_GetControlMode :: "ds_state \<Rightarrow> DS_ControlMode" where
  "CFG_GetControlMode s = cfg_control_mode s"
definition CFG_GetRobotEnabled :: "ds_state \<Rightarrow> bool" where
  "CFG_GetRobotEnabled s = cfg_robot_enabled s"
definition CFG_GetEmergencyStopped :: "ds_state \<Rightarrow> bool" where
  "CFG_GetEmergencyStopped s = cfg_emergency_stopped s"
definition CFG_GetFMSCommunications :: "ds_state \<Rightarrow> bool" where
  "CFG_GetFMSCommunications s = cfg_fms_communications s"
definition CFG_GetRadioCommunications :: "ds_state \<Rightarrow> bool" where
  "CFG_GetRadioCommunications s = cfg_radio_communications s"
definition CFG_GetRobotCommunications :: "ds_state \<Rightarrow> bool" where
  "CFG_GetRobotCommunications s = cfg_robot_communications s"
definition CFG_GetRobotVoltage :: "ds_state \<Rightarrow> real" where
  "CFG_GetRobotVoltage s = cfg_robot_voltage s"

definition CFG_SetRobotEnabled :: "u8 \<Rightarrow> ds_state \<Rightarrow> ds_state" where
  "CFG_SetRobotEnabled v s = s\<lparr>cfg_robot_enabled := (v \<noteq> 0)\<rparr>"
definition CFG_SetControlMode :: "DS_ControlMode \<Rightarrow> ds_state \<Rightarrow> ds_state" where
  "CFG_SetControlMode m s = s\<lparr>cfg_control_mode := m\<rparr>"
definition CFG_SetAlliance :: "DS_Alliance \<Rightarrow> ds_state \<Rightarrow> ds_state" where
  "CFG_SetAlliance a s = s\<lparr>cfg_alliance := a\<rparr>"
definition CFG_SetPosition :: "DS_Position \<Rightarrow> ds_state \<Rightarrow> ds_state" where
  "CFG_SetPosition p s = s\<lparr>cfg_position := p\<rparr>"
definition CFG_SetRobotCode :: "u8 \<Rightarrow> ds_state \<Rightarrow> ds_state" where
  "CFG_SetRobotCode v s = s\<lparr>cfg_robot_code := (v \<noteq> 0)\<rparr>"
definition CFG_SetEmergencyStopped :: "u8 \<Rightarrow> ds_state \<Rightarrow> ds_state" where
  "CFG_SetEmergencyStopped v s = s\<lparr>cfg_emergency_stopped := (v \<noteq> 0)\<rparr>"
definition CFG_SetRobotVoltage :: "real \<Rightarrow> ds_state \<Rightarrow> ds_state" where
  "CFG_SetRobotVoltage v s = s\<lparr>cfg_robot_voltage := v\<rparr>"
definition CFG_SetCANUtilization :: "u8 \<Rightarrow> ds_state \<Rightarrow> ds_state" where
  "CFG_SetCANUtilization v s = s\<lparr>cfg_can_utilization := v\<rparr>"
definition CFG_SetRobotCPUUsage :: "u8 \<Rightarrow> ds_state \<Rightarrow> ds_state" where
  "CFG_SetRobotCPUUsage v s = s\<lparr>cfg_cpu_usage := v\<rparr>"
definition CFG_SetRobotRAMUsage :: "u8 \<Rightarrow> ds_state \<Rightarrow> ds_state" where
  "CFG_SetRobotRAMUsage v s = s\<lparr>cfg_ram_usage := v\<rparr>"
definition CFG_SetRobotDiskUsage :: "u8 \<Rightarrow> ds_state \<Rightarrow> ds_state" where
  "CFG_SetRobotDiskUsage v s = s\<lparr>cfg_disk_usage := v\<rparr>"

lemmas CFG_defs =
  CFG_GetTeamNumber_def CFG_GetAlliance_def CFG_GetPosition_def CFG_GetControlMode_def
  CFG_GetRobotEnabled_def CFG_GetEmergencyStopped_def CFG_GetFMSCommunications_def
  CFG_GetRadioCommunications_def CFG_GetRobotCommunications_def CFG_GetRobotVoltage_def
  CFG_SetRobotEnabled_def CFG_SetControlMode_def CFG_SetAlliance_def CFG_SetPosition_def
  CFG_SetRobotCode_def CFG_SetEmergencyStopped_def CFG_SetRobotVoltage_def
  CFG_SetCANUtilization_def CFG_SetRobotCPUUsage_def CFG_SetRobotRAMUsage_def
  CFG_SetRobotDiskUsage_def

section \<open>Voltage codec\<close>

text \<open>
  \<open>decode_voltage\<close> divides the lower byte by \<open>0xff\<close>. In \<open>encode_voltage\<close> the
  cast binds tighter than the product: the lower byte is
  \<open>(uint8_t) (voltage - (int) voltage)\<close> times 100, stored back into a \<open>uint8_t\<close>.
  The pointers \<open>upper\<close> and \<open>lower\<close> are the addresses of two locals at the only
  call, so the null test passes and the two bytes are the result.
\<close>

definition decode_voltage :: "u8 \<Rightarrow> u8 \<Rightarrow> real" where
  "decode_voltage upper lower = real (unat upper) + real (unat lower) / 255"

definition encode_voltage :: "real \<Rightarrow> u8 \<times> u8" where
  "encode_voltage voltage =
     (double_to_u8 voltage,
      double_to_u8 (voltage - of_int (c_trunc voltage)) * 100)"

section \<open>Control, request and station codes\<close>

definition fms_control_code :: "ds_state \<Rightarrow> u8" where
  "fms_control_code s =
     (let code = 0;
          code = (case CFG_GetControlMode s of
                    DS_CONTROL_TEST \<Rightarrow> code OR cTest
                  | DS_CONTROL_AUTONOMOUS \<Rightarrow> code OR cAutonomous
                  | DS_CONTROL_TELEOPERATED \<Rightarrow> code OR cTeleoperated);
          code = (if CFG_GetEmergencyStopped s then code OR cEmergencyStop else code);
          code = (if CFG_GetRobotEnabled s then code OR cEnabled else code);
          code = (if CFG_GetRadioCommunications s then code OR cFMS_RadioPing else code);
          code = (if CFG_GetRobotCommunications s
                  then (code OR cFMS_RobotComms) OR cFMS_RobotPing else code)
      in code)"

definition get_control_code :: "ds_state \<Rightarrow> u8" where
  "get_control_code s =
     (let code = 0;
          code = (case CFG_GetControlMode s of
                    DS_CONTROL_TEST \<Rightarrow> code OR cTest
                  | DS_CONTROL_AUTONOMOUS \<Rightarrow> code OR cAutonomous
                  | DS_CONTROL_TELEOPERATED \<Rightarrow> code OR cTeleoperated);
          code = (if CFG_GetFMSCommunications s then code OR cFMS_Attached else code);
          code = (if CFG_GetEmergencyStopped s then code OR cEmergencyStop else code);
          code = (if CFG_GetRobotEnabled s then code OR cEnabled else code)
      in code)"

definition get_request_code :: "ds_state \<Rightarrow> u8" where
  "get_request_code s =
     (let code = cRequestNormal
      in if CFG_GetRobotCommunications s
         then (if reboot s then cRequestReboot
               else if restart_code s then cRequestRestartCode
               else code)
         else cRequestUnconnected)"

definition get_station_code :: "ds_state \<Rightarrow> u8" where
  "get_station_code s =
     (if CFG_GetPosition s = DS_POSITION_1
      then (if CFG_GetAlliance s = DS_ALLIANCE_RED then cRed1 else cBlue1)
      else if CFG_GetPosition s = DS_POSITION_2
      then (if CFG_GetAlliance s = DS_ALLIANCE_RED then cRed2 else cBlue2)
      else if CFG_GetPosition s = DS_POSITION_3
      then (if CFG_GetAlliance s = DS_ALLIANCE_RED then cRed3 else cBlue3)
      else cRed1)"

definition get_alliance :: "u8 \<Rightarrow> DS_Alliance" where
  "get_alliance byte =
     (if byte = cBlue1 \<or> byte = cBlue2 \<or> byte = cBlue3 then DS_ALLIANCE_BLUE
      else DS_ALLIANCE_RED)"

definition get_position :: "u8 \<Rightarrow> DS_Position" where
  "get_position byte =
     (if byte = cRed1 \<or> byte = cBlue1 then DS_POSITION_1
      else if byte = cRed2 \<or> byte = cBlue2 then DS_POSITION_2
      else if byte = cRed3 \<or> byte = cBlue3 then DS_POSITION_3
      else DS_POSITION_1)"

section \<open>The FMS packet builder\<close>

text \<open>
  \<open>calloc (8, 1)\<close> gives eight zero bytes and every index written is below 8, so the
  packet is a list updated in place. The function returns the packet and the state with
  the counter increased.
\<close>

definition create_fms_packet :: "ds_state \<Rightarrow> u8 list \<times> ds_state" where
  "create_fms_packet s =
     (let data = replicate 8 (0 :: u8);
          (integer, decimal) = encode_voltage (CFG_GetRobotVoltage s);
          data = data[0 := ucast (drop_bit 8 (sent_fms_packets s AND 0xff00))];
          data = data[1 := ucast (sent_fms_packets s AND 0xff)];
          data = data[2 := cFMS_DS_Version];
          data = data[3 := fms_control_code s];
          data = data[4 := ucast (drop_bit 8 (CFG_GetTeamNumber s AND 0xff00))];
          data = data[5 := ucast (CFG_GetTeamNumber s AND 0xff)];
          data = data[6 := integer];
          data = data[7 := decimal]
      in (data, s\<lparr>sent_fms_packets := sent_fms_packets s + 1\<rparr>))"

section \<open>Joysticks, the clock and the allocator\<close>

text \<open>
  Modelled from the spec: the joystick enumeration of \<open>DS_Joysticks.h\<close>, not among the
  sources. The spec lists a count and, per joystick, the numbers of axes, buttons and
  hats and the value of each axis (a float), button (a truth value) and hat (an integer).
  A joystick is the three lists of values; the model passes the joystick where the source
  passes its index.
\<close>

record joystick =
  axes :: "real list"
  buttons :: "bool list"
  hats :: "c_int list"

definition DS_GetJoystickNumAxes :: "joystick \<Rightarrow> nat" where
  "DS_GetJoystickNumAxes j = length (axes j)"
definition DS_GetJoystickNumButtons :: "joystick \<Rightarrow> nat" where
  "DS_GetJoystickNumButtons j = length (buttons j)"
definition DS_GetJoystickNumHats :: "joystick \<Rightarrow> nat" where
  "DS_GetJoystickNumHats j = length (hats j)"

text \<open>
  What the C library and the rest of LibDS supply to the robot packet builder: the
  attached joysticks; the \<open>struct tm\<close> that \<open>localtime\<close> returns (for an uninitialised
  \<open>time_t\<close>, so any value); \<open>DS_SizeOf (tz)\<close>; \<open>sizeof\<close> of a pointer; whether
  \<open>realloc\<close> resizes the block where it lies or hands out another one; and the bytes
  found in memory that \<open>realloc\<close> adds, which C leaves indeterminate.
\<close>

record tm =
  tm_sec :: c_int
  tm_min :: c_int
  tm_hour :: c_int
  tm_yday :: c_int
  tm_mon :: c_int
  tm_year :: c_int

record env =
  joysticks :: "joystick list"
  timeinfo :: tm
  tz_size :: nat
  pointer_size :: nat
  realloc_in_place :: bool
  fresh :: "nat \<Rightarrow> u8"

text \<open>
  A heap block under construction: its bytes, and whether a store has gone past its end.
  A store inside the block updates the byte; a store outside it leaves the block as it is
  and is recorded, so that a packet built with such a store is never taken for a valid
  one. Allocation failure (\<open>calloc\<close> or \<open>realloc\<close> returning \<open>NULL\<close>) is not
  modelled.
\<close>

record buffer =
  cells :: "u8 list"
  overrun :: bool

definition poke :: "buffer \<Rightarrow> nat \<Rightarrow> u8 \<Rightarrow> buffer" where
  "poke b i v =
     (if i < length (cells b) then b\<lparr>cells := (cells b)[i := v]\<rparr>
      else b\<lparr>overrun := True\<rparr>)"

definition c_realloc :: "env \<Rightarrow> buffer \<Rightarrow> nat \<Rightarrow> buffer" where
  "c_realloc e b n =
     b\<lparr>cells := take n (cells b) @ map (fresh e) [length (cells b)..<n]\<rparr>"

section \<open>The joystick payload\<close>

definition get_joystick_size :: "joystick \<Rightarrow> u8" where
  "get_joystick_size j =
     (let header_size = 2;
          button_data = 3;
          axis_data = DS_GetJoystickNumAxes j + 1;
          hat_data = (DS_GetJoystickNumHats j * 2) + 1
      in of_nat (header_size + button_data + axis_data + hat_data))"

text \<open>The first loop of \<open>add_joystick_data\<close>: \<open>length += get_joystick_size (i)\<close>.\<close>

fun add_joystick_data_length :: "joystick list \<Rightarrow> nat \<Rightarrow> nat" where
  "add_joystick_data_length [] len = len"
| "add_joystick_data_length (j # js) len =
     add_joystick_data_length js (len + unat (get_joystick_size j))"

text \<open>The axis loop: \<open>data [pos] = (uint8_t) (axis * 127); ++pos\<close>.\<close>

fun add_joystick_data_axes :: "real list \<Rightarrow> buffer \<Rightarrow> nat \<Rightarrow> buffer \<times> nat" where
  "add_joystick_data_axes [] data pos = (data, pos)"
| "add_joystick_data_axes (v # vs) data pos =
     add_joystick_data_axes vs (poke data pos (double_to_u8 (v * 127))) (pos + 1)"

text \<open>
  The button loop: \<open>button_flags += pressed ? pow (2, b) : 0\<close> on a \<open>uint8_t\<close>; the
  sum is a \<open>double\<close> converted back to \<open>uint8_t\<close>.
\<close>

fun add_joystick_data_buttons :: "bool list \<Rightarrow> nat \<Rightarrow> u8 \<Rightarrow> u8" where
  "add_joystick_data_buttons [] b button_flags = button_flags"
| "add_joystick_data_buttons (p # ps) b button_flags =
     add_joystick_data_buttons ps (b + 1)
       (double_to_u8 (real (unat button_flags) + (if p then 2 ^ b else 0)))"

text \<open>The hat loop: two stores at \<open>pos + 1\<close> and \<open>pos + 2\<close>, then \<open>pos += 2\<close>.\<close>

fun add_joystick_data_hats :: "c_int list \<Rightarrow> buffer \<Rightarrow> nat \<Rightarrow> buffer \<times> nat" where
  "add_joystick_data_hats [] data pos = (data, pos)"
| "add_joystick_data_hats (h # hs) data pos =
     add_joystick_data_hats hs
       (poke (poke data (pos + 1) (ucast (drop_bit 8 (h AND 0xff00))))
          (pos + 2) (ucast (h AND 0xff)))
       (pos + 2)"

text \<open>
  The body of the second loop of \<open>add_joystick_data\<close>, for one joystick: it takes the
  block and the position and returns both. After the axes it stores at \<open>pos + 1\<close>,
  \<open>pos + 2\<close> and \<open>pos + 3\<close>; nothing is stored at \<open>pos\<close> itself.
\<close>

definition add_joystick_data_body :: "joystick \<Rightarrow> buffer \<Rightarrow> nat \<Rightarrow> buffer \<times> nat" where
  "add_joystick_data_body j data pos =
     (let data = poke data (pos + 0) (get_joystick_size j);
          data = poke data (pos + 1) cTagJoystick;
          pos = pos + 2;
          (data, pos) = add_joystick_data_axes (axes j) data pos;
          button_flags = add_joystick_data_buttons (buttons j) 0 0;
          data = poke data (pos + 1) (of_nat (DS_GetJoystickNumButtons j));
          data = poke data (pos + 2)
                   (ucast (drop_bit 8 ((ucast button_flags :: c_int) AND 0xff00)));
          data = poke data (pos + 3) (ucast ((ucast button_flags :: c_int) AND 0xff));
          pos = pos + 4;
          data = poke data pos (of_nat (DS_GetJoystickNumHats j));
          (data, pos) = add_joystick_data_hats (hats j) data pos;
          pos = pos + 1
      in (data, pos))"

fun add_joystick_data_loop :: "joystick list \<Rightarrow> buffer \<Rightarrow> nat \<Rightarrow> buffer \<times> nat" where
  "add_joystick_data_loop [] data pos = (data, pos)"
| "add_joystick_data_loop (j # js) data pos =
     (case add_joystick_data_body j data pos of
        (data', pos') \<Rightarrow> add_joystick_data_loop js data' pos')"

text \<open>
  \<open>add_joystick_data\<close> resizes its own copy of the pointer to
  \<open>sizeof (data) + length\<close> bytes, \<open>sizeof (data)\<close> being the size of a pointer, and
  writes the joystick blocks from \<open>offset\<close> on. The result is the block its copy of the
  pointer refers to in the end.
\<close>

definition add_joystick_data :: "env \<Rightarrow> buffer \<Rightarrow> nat \<Rightarrow> buffer" where
  "add_joystick_data e data offset =
     (let len = add_joystick_data_length (joysticks e) 0;
          data = c_realloc e data (pointer_size e + len);
          pos = offset
      in fst (add_joystick_data_loop (joysticks e) data pos))"

section \<open>The date and timezone payload\<close>

text \<open>
  \<open>add_timezone_data\<close> resizes its copy of the pointer to \<open>sizeof (data) + length\<close>
  bytes and stores twelve bytes from \<open>offset\<close> on. The loop that should copy the
  timezone string is guarded by \<open>i > length\<close> with \<open>i = 0\<close> and the size \<open>length\<close>
  not negative, so its body never runs and the model has no store for it. The model
  follows the packet block only: the one-byte \<open>tz\<close> block and the \<open>free\<close> of
  \<open>localtime\<close>'s result are outside it.
\<close>

definition add_timezone_data :: "env \<Rightarrow> buffer \<Rightarrow> nat \<Rightarrow> buffer" where
  "add_timezone_data e data offset =
     (let len = tz_size e;
          data = c_realloc e data (pointer_size e + len);
          data = poke data (offset + 0) 0x0b;
          data = poke data (offset + 1) cTagDate;
          data = poke data (offset + 2) 0;
          data = poke data (offset + 3) 0;
          data = poke data (offset + 4) (ucast (tm_sec (timeinfo e)));
          data = poke data (offset + 5) (ucast (tm_min (timeinfo e)));
          data = poke data (offset + 6) (ucast (tm_hour (timeinfo e)));
          data = poke data (offset + 7) (ucast (tm_yday (timeinfo e)));
          data = poke data (offset + 8) (ucast (tm_mon (timeinfo e)));
          data = poke data (offset + 9) (ucast (tm_year (timeinfo e)));
          data = poke data (offset + 10) (of_nat len);
          data = poke data (offset + 11) cTagTimezone
      in data)"

section \<open>The robot packet builder\<close>

text \<open>
  \<open>create_robot_packet\<close> allocates eight zero bytes, stores the six header bytes and
  hands the pointer to \<open>add_timezone_data\<close> or \<open>add_joystick_data\<close>, which resize a
  copy of it; the builder returns its own pointer. When \<open>realloc\<close> resized the block in
  place, that pointer refers to the block the callee wrote; when \<open>realloc\<close> handed out
  another block, it refers to memory that has been released. The result is the bytes of
  the block returned, or the fault that makes the pointer unusable.
\<close>

datatype fault = OutOfBounds | Dangling

definition returned :: "env \<Rightarrow> buffer \<Rightarrow> fault + u8 list" where
  "returned e b =
     (if overrun b then Inl OutOfBounds
      else if realloc_in_place e then Inr (cells b)
      else Inl Dangling)"

definition create_robot_packet :: "env \<Rightarrow> ds_state \<Rightarrow> (fault + u8 list) \<times> ds_state" where
  "create_robot_packet e s =
     (let data = replicate 8 (0 :: u8);
          data = data[0 := ucast (drop_bit 8 (sent_robot_packets s AND 0xff00))];
          data = data[1 := ucast (sent_robot_packets s AND 0xff)];
          data = data[2 := cTagGeneral];
          data = data[3 := get_control_code s];
          data = data[4 := get_request_code s];
          data = data[5 := get_station_code s];
          result =
            (if send_time_data s
             then returned e (add_timezone_data e \<lparr>cells = data, overrun = False\<rparr> 6)
             else if 5 <s sent_robot_packets s
             then returned e (add_joystick_data e \<lparr>cells = data, overrun = False\<rparr> 6)
             else Inr data)
      in (result, s\<lparr>sent_robot_packets := sent_robot_packets s + 1\<rparr>))"

section \<open>The packet parsers\<close>

text \<open>
  A parser receives a pointer and no length. The model of the pointer is \<open>None\<close> for
  \<open>NULL\<close> and otherwise the received payload together with whatever the memory holds
  behind it: reading \<open>data [i]\<close> past the payload yields that memory.

  Modelled from the spec: \<open>DS_SizeOf\<close> of \<open>DS_Utils.h\<close>, not among the sources; the
  spec reads \<open>DS_SizeOf (data) > 9\<close> as "payload length > 9".
\<close>

record datagram =
  payload :: "u8 list"
  beyond :: "nat \<Rightarrow> u8"

definition byte_at :: "datagram \<Rightarrow> nat \<Rightarrow> u8" where
  "byte_at d i = (if i < length (payload d) then payload d ! i else beyond d i)"

definition DS_SizeOf :: "datagram \<Rightarrow> nat" where
  "DS_SizeOf d = length (payload d)"

definition read_extended :: "datagram \<Rightarrow> nat \<Rightarrow> ds_state \<Rightarrow> ds_state" where
  "read_extended data offset s =
     (let tag = byte_at data (offset + 1)
      in if tag = cRTagCANInfo then CFG_SetCANUtilization (byte_at data (offset + 10)) s
         else if tag = cRTagCPUInfo then CFG_SetRobotCPUUsage (byte_at data (offset + 3)) s
         else if tag = cRTagRAMInfo then CFG_SetRobotRAMUsage (byte_at data (offset + 4)) s
         else if tag = cRTagDiskInfo then CFG_SetRobotDiskUsage (byte_at data (offset + 4)) s
         else s)"

definition read_fms_packet :: "datagram option \<Rightarrow> ds_state \<Rightarrow> int \<times> ds_state" where
  "read_fms_packet data s =
     (case data of
        None \<Rightarrow> (0, s)
      | Some d \<Rightarrow>
          (let control = byte_at d 3;
               station = byte_at d 5;
               s = CFG_SetRobotEnabled (control AND cEnabled) s;
               s = (if control AND cTeleoperated \<noteq> 0
                    then CFG_SetControlMode DS_CONTROL_TELEOPERATED s
                    else if control AND cAutonomous \<noteq> 0
                    then CFG_SetControlMode DS_CONTROL_AUTONOMOUS s
                    else if control AND cTest \<noteq> 0
                    then CFG_SetControlMode DS_CONTROL_TEST s
                    else s);
               s = CFG_SetAlliance (get_alliance station) s;
               s = CFG_SetPosition (get_position station) s
           in (1, s)))"

definition read_radio_packet :: "datagram option \<Rightarrow> ds_state \<Rightarrow> int \<times> ds_state" where
  "read_radio_packet data s = (0, s)"

definition read_robot_packet :: "datagram option \<Rightarrow> ds_state \<Rightarrow> int \<times> ds_state" where
  "read_robot_packet data s =
     (case data of
        None \<Rightarrow> (0, s)
      | Some d \<Rightarrow>
          (let control = byte_at d 3;
               status = byte_at d 4;
               request = byte_at d 7;
               s = CFG_SetRobotCode (status AND cRobotHasCode) s;
               s = CFG_SetEmergencyStopped (control AND cEmergencyStop) s;
               s = s\<lparr>send_time_data := (request = cRequestTime)\<rparr>;
               upper = byte_at d 5;
               lower = byte_at d 6;
               s = CFG_SetRobotVoltage (decode_voltage upper lower) s;
               s = (if DS_SizeOf d > 9 then read_extended d 8 s else s)
           in (1, s)))"

section \<open>Watchdog hooks and requests\<close>

definition reset_fms :: "ds_state \<Rightarrow> ds_state" where
  "reset_fms s = s"

definition reset_radio :: "ds_state \<Rightarrow> ds_state" where
  "reset_radio s = s"

definition reset_robot :: "ds_state \<Rightarrow> ds_state" where
  "reset_robot s = s\<lparr>reboot := False, restart_code := False, send_time_data := False\<rparr>"

definition reboot_robot :: "ds_state \<Rightarrow> ds_state" where
  "reboot_robot s = s\<lparr>reboot := True\<rparr>"

definition restart_robot_code :: "ds_state \<Rightarrow> ds_state" where
  "restart_robot_code s = s\<lparr>restart_code := True\<rparr>"

section \<open>Concrete inputs\<close>

text \<open>
  States and datagrams at which the theorems below evaluate the functions.
  \<open>golden_state\<close> is the second scenario of the specification: team 4499, autonomous,
  enabled, all three links up, 12.50 volts, both counters at zero.
\<close>

definition golden_state :: ds_state where
  "golden_state =
     \<lparr>cfg_team_number = 4499, cfg_alliance = DS_ALLIANCE_RED, cfg_position = DS_POSITION_1,
      cfg_control_mode = DS_CONTROL_AUTONOMOUS, cfg_robot_enabled = True,
      cfg_emergency_stopped = False, cfg_robot_code = False, cfg_fms_communications = True,
      cfg_radio_communications = True, cfg_robot_communications = True,
      cfg_robot_voltage = 25 / 2, cfg_cpu_usage = 0, cfg_ram_usage = 0, cfg_disk_usage = 0,
      cfg_can_utilization = 0, send_time_data = False, sent_fms_packets = 0,
      sent_robot_packets = 0, reboot = False, restart_code = False\<rparr>"

definition idle_state :: ds_state where
  "idle_state =
     \<lparr>cfg_team_number = 0, cfg_alliance = DS_ALLIANCE_RED, cfg_position = DS_POSITION_1,
      cfg_control_mode = DS_CONTROL_TELEOPERATED, cfg_robot_enabled = False,
      cfg_emergency_stopped = False, cfg_robot_code = False, cfg_fms_communications = False,
      cfg_radio_communications = False, cfg_robot_communications = False,
      cfg_robot_voltage = 0, cfg_cpu_usage = 0, cfg_ram_usage = 0, cfg_disk_usage = 0,
      cfg_can_utilization = 0, send_time_data = False, sent_fms_packets = 0,
      sent_robot_packets = 0, reboot = False, restart_code = False\<rparr>"

definition teleop_fms_datagram :: datagram where
  "teleop_fms_datagram = \<lparr>payload = [0, 0, 0, 0x04, 0, 0], beyond = (\<lambda>i. 0)\<rparr>"

definition short_fms_datagram :: datagram where
  "short_fms_datagram = \<lparr>payload = [0, 0, 0, 0x04], beyond = (\<lambda>i. 0)\<rparr>"

definition short_robot_datagram :: datagram where
  "short_robot_datagram = \<lparr>payload = [0, 0, 0, 0x80, 0x20, 12, 0], beyond = (\<lambda>i. 0)\<rparr>"

section \<open>Voltage codec: the fraction is lost\<close>

lemma calloc8: "replicate 8 (0 :: u8) = [0, 0, 0, 0, 0, 0, 0, 0]"
  by (simp add: numeral_eq_Suc)

lemma c_trunc_fraction: "c_trunc (v - of_int (c_trunc v)) = 0"
proof (cases "0 \<le> v")
  case True
  then have "c_trunc v = \<lfloor>v\<rfloor>" by (simp add: c_trunc_def)
  moreover have "0 \<le> v - of_int \<lfloor>v\<rfloor>" "v - of_int \<lfloor>v\<rfloor> < 1" by linarith+
  ultimately show ?thesis by (simp add: c_trunc_def floor_eq_iff)
next
  case False
  then have eq: "c_trunc v = \<lceil>v\<rceil>" by (simp add: c_trunc_def)
  have le: "v - of_int \<lceil>v\<rceil> \<le> 0" and gt: "- 1 < v - of_int \<lceil>v\<rceil>" by linarith+
  show ?thesis
  proof (cases "v - of_int \<lceil>v\<rceil> = 0")
    case True
    then have "v - of_int (c_trunc v) = 0" by (simp only: eq)
    then have "c_trunc (v - of_int (c_trunc v)) = c_trunc 0" by (rule arg_cong)
    then show ?thesis by (simp add: c_trunc_def)
  next
    case False
    with le have lt: "v - of_int \<lceil>v\<rceil> < 0" by linarith
    from gt lt have "\<lceil>v - of_int \<lceil>v\<rceil>\<rceil> = 0"
      by (intro ceiling_unique) simp_all
    with lt show ?thesis by (simp only: eq c_trunc_def) simp
  qed
qed

lemma encode_voltage_lower: "snd (encode_voltage v) = 0"
  by (simp add: encode_voltage_def double_to_u8_def c_trunc_fraction)

text \<open>
  C1. The claim is that decoding the two bytes of \<open>encode_voltage v\<close> gives a value
  within 1/256 of \<open>v\<close> for every \<open>0 \<le> v < 256\<close>. In the source the cast to
  \<open>uint8_t\<close> is applied to the fraction before the product with 100, so the lower byte
  is always zero (\<open>encode_voltage_lower\<close>). At 12.5 volts the bytes are 12 and 0, they
  decode to 12, and the error is 1/2.
\<close>

theorem encode_voltage_drops_fraction:
  "encode_voltage (25 / 2) = (12, 0) \<and> decode_voltage 12 0 = 12 \<and>
   \<bar>decode_voltage (fst (encode_voltage (25 / 2))) (snd (encode_voltage (25 / 2))) - 25 / 2\<bar>
     = 1 / 2"
  by (simp add: encode_voltage_def double_to_u8_def c_trunc_def decode_voltage_def)

section \<open>The FMS packet\<close>

lemma create_fms_packet_bytes:
  "fst (create_fms_packet s) =
     [ucast (drop_bit 8 (sent_fms_packets s AND 0xff00)), ucast (sent_fms_packets s AND 0xff),
      cFMS_DS_Version, fms_control_code s,
      ucast (drop_bit 8 (CFG_GetTeamNumber s AND 0xff00)), ucast (CFG_GetTeamNumber s AND 0xff),
      fst (encode_voltage (CFG_GetRobotVoltage s)), snd (encode_voltage (CFG_GetRobotVoltage s))]"
  by (simp add: create_fms_packet_def calloc8 Let_def split_beta)

text \<open>
  C2. The claim is that in the second scenario (counter 0, team 4499, autonomous, enabled,
  radio and robot links up, 12.50 volts) \<open>create_fms_packet\<close> returns the bytes
  \<open>00 00 00 3E 11 93 0C 80\<close>. The source returns \<open>00 00 00 3E 11 93 0C 00\<close>: the
  first seven bytes agree and the last one, the fraction of the voltage, is zero.
\<close>

theorem create_fms_packet_golden:
  "fst (create_fms_packet golden_state) = [0x00, 0x00, 0x00, 0x3E, 0x11, 0x93, 0x0C, 0x00]"
  by (simp add: create_fms_packet_bytes golden_state_def encode_voltage_def double_to_u8_def
      c_trunc_def fms_control_code_def CFG_defs protocol_bytes Let_def)

section \<open>The FMS parser\<close>

lemma read_fms_packet_mode:
  "cfg_control_mode (snd (read_fms_packet (Some d) s)) =
     (if byte_at d 3 AND 0x02 \<noteq> 0 then DS_CONTROL_AUTONOMOUS
      else if byte_at d 3 AND 0x01 \<noteq> 0 then DS_CONTROL_TEST
      else cfg_control_mode s)"
  by (simp add: read_fms_packet_def CFG_defs protocol_bytes Let_def)

text \<open>
  C3. The claim is that \<open>read_fms_packet\<close> sets the control mode to Teleoperated when
  neither mode bit of byte 3 is set. The source tests \<open>control & cTeleoperated\<close> with
  \<open>cTeleoperated = 0x00\<close>, which is never true, so with neither bit set the mode stays
  what it was (\<open>read_fms_packet_mode\<close>). In the autonomous state of the second
  scenario, a packet whose control byte is \<open>0x04\<close> (enabled, no mode bit) is parsed
  successfully and the mode is still Autonomous.
\<close>

theorem read_fms_packet_keeps_mode:
  "byte_at teleop_fms_datagram 3 AND 0x03 = 0 \<and>
   cfg_control_mode golden_state = DS_CONTROL_AUTONOMOUS \<and>
   fst (read_fms_packet (Some teleop_fms_datagram) golden_state) = 1 \<and>
   cfg_control_mode (snd (read_fms_packet (Some teleop_fms_datagram) golden_state))
     = DS_CONTROL_AUTONOMOUS"
  by (simp add: read_fms_packet_def teleop_fms_datagram_def golden_state_def byte_at_def
      CFG_defs protocol_bytes Let_def)

text \<open>
  C10. For every inbound FMS packet, null or not, \<open>read_fms_packet\<close> leaves the team
  number, the robot voltage, the emergency stop flag, the robot code flag, the three link
  flags, the CPU, RAM, disk and CAN figures, the three latches and the two counters as
  they were: it writes only the enabled flag, the control mode, the alliance and the
  position.
\<close>

theorem read_fms_packet_frame:
  "cfg_team_number (snd (read_fms_packet data s)) = cfg_team_number s \<and>
   cfg_robot_voltage (snd (read_fms_packet data s)) = cfg_robot_voltage s \<and>
   cfg_emergency_stopped (snd (read_fms_packet data s)) = cfg_emergency_stopped s \<and>
   cfg_robot_code (snd (read_fms_packet data s)) = cfg_robot_code s \<and>
   cfg_fms_communications (snd (read_fms_packet data s)) = cfg_fms_communications s \<and>
   cfg_radio_communications (snd (read_fms_packet data s)) = cfg_radio_communications s \<and>
   cfg_robot_communications (snd (read_fms_packet data s)) = cfg_robot_communications s \<and>
   cfg_cpu_usage (snd (read_fms_packet data s)) = cfg_cpu_usage s \<and>
   cfg_ram_usage (snd (read_fms_packet data s)) = cfg_ram_usage s \<and>
   cfg_disk_usage (snd (read_fms_packet data s)) = cfg_disk_usage s \<and>
   cfg_can_utilization (snd (read_fms_packet data s)) = cfg_can_utilization s \<and>
   send_time_data (snd (read_fms_packet data s)) = send_time_data s \<and>
   reboot (snd (read_fms_packet data s)) = reboot s \<and>
   restart_code (snd (read_fms_packet data s)) = restart_code s \<and>
   sent_fms_packets (snd (read_fms_packet data s)) = sent_fms_packets s \<and>
   sent_robot_packets (snd (read_fms_packet data s)) = sent_robot_packets s"
  by (cases data) (simp_all add: read_fms_packet_def CFG_defs Let_def)

section \<open>Payloads shorter than the minimum\<close>

text \<open>
  C5, as stated: a parser given fewer bytes than its peer's minimum (6 for the FMS, 8 for
  the robot) returns failure and changes nothing. The parsers take no length and only
  test the pointer. A four-byte FMS payload whose control byte is \<open>0x04\<close> is accepted
  and enables the robot; a seven-byte robot payload whose control byte is \<open>0x80\<close> is
  accepted and sets the emergency stop.
\<close>

theorem short_packet_counterexample:
  "length (payload short_fms_datagram) < 6 \<and>
   fst (read_fms_packet (Some short_fms_datagram) idle_state) = 1 \<and>
   \<not> cfg_robot_enabled idle_state \<and>
   cfg_robot_enabled (snd (read_fms_packet (Some short_fms_datagram) idle_state)) \<and>
   length (payload short_robot_datagram) < 8 \<and>
   fst (read_robot_packet (Some short_robot_datagram) idle_state) = 1 \<and>
   \<not> cfg_emergency_stopped idle_state \<and>
   cfg_emergency_stopped (snd (read_robot_packet (Some short_robot_datagram) idle_state))"
  by (simp add: read_fms_packet_def read_robot_packet_def short_fms_datagram_def
      short_robot_datagram_def idle_state_def byte_at_def DS_SizeOf_def CFG_defs
      protocol_bytes Let_def)

text \<open>
  C5, amended: for a null pointer each parser returns failure (0) and leaves the whole
  state, every configuration field and every latch, unchanged; for every other pointer,
  whatever the length of the payload behind it, each parser returns success (1).
\<close>

theorem null_packet_rejected:
  "read_fms_packet None s = (0, s) \<and> read_robot_packet None s = (0, s) \<and>
   fst (read_fms_packet (Some d) s) = 1 \<and> fst (read_robot_packet (Some d) s) = 1"
  by (simp add: read_fms_packet_def read_robot_packet_def Let_def)

section \<open>The robot parser and the date request\<close>

lemma read_extended_send_time_data [simp]:
  "send_time_data (read_extended d off s) = send_time_data s"
  by (simp add: read_extended_def CFG_defs Let_def)

text \<open>
  C9. \<open>read_robot_packet\<close> succeeds exactly on a non-null pointer, and after it the
  \<open>send_time_data\<close> latch is \<open>True\<close> if byte 7 is \<open>0x01\<close> and \<open>False\<close>
  otherwise, whatever the latch was before: a packet with another request byte clears a
  latch that was set.
\<close>

theorem read_robot_packet_recomputes_latch:
  "fst (read_robot_packet (Some d) s) = 1 \<and>
   send_time_data (snd (read_robot_packet (Some d) s)) = (byte_at d 7 = 0x01) \<and>
   fst (read_robot_packet None s) = 0"
  by (simp add: read_robot_packet_def CFG_defs cRequestTime_def Let_def)

end
